theory Spec2Isabelle
  imports Complex_Main
begin

section \<open>Python values\<close>

text \<open>
  The values that travel through \<^verbatim>\<open>base.py\<close>: request parameters, request bodies,
  the mapping returned by the signing hook and decoded JSON documents. A Python
  \<^verbatim>\<open>dict\<close> with string keys is an association list in insertion order; its keys
  are distinct in every dictionary Python builds, and lookups go through \<open>map_of\<close>.
  Floats are idealised as reals (NaN and the infinities are left out).
\<close>

datatype pyval =
    PNone
  | PBool bool
  | PInt int
  | PFloat real
  | PStr string
  | PList "pyval list"
  | PDict "(string \<times> pyval) list"

text \<open>Python's truth value testing, \<^verbatim>\<open>bool(v)\<close> and \<^verbatim>\<open>if v:\<close>.\<close>

fun truthy :: "pyval \<Rightarrow> bool" where
  "truthy PNone = False"
| "truthy (PBool b) = b"
| "truthy (PInt i) = (i \<noteq> 0)"
| "truthy (PFloat r) = (r \<noteq> 0)"
| "truthy (PStr s) = (s \<noteq> [])"
| "truthy (PList xs) = (xs \<noteq> [])"
| "truthy (PDict kvs) = (kvs \<noteq> [])"

text \<open>\<^verbatim>\<open>d.get(key, default)\<close> on a dictionary.\<close>

definition dict_get :: "(string \<times> pyval) list \<Rightarrow> string \<Rightarrow> pyval \<Rightarrow> pyval" where
  "dict_get d key dflt = (case map_of d key of Some v \<Rightarrow> v | None \<Rightarrow> dflt)"

text \<open>
  A replacement field \<^verbatim>\<open>{v}\<close> of an f-string: a \<^verbatim>\<open>str\<close> is inserted as it is,
  any other value through Python's \<^verbatim>\<open>str()\<close>, which is the parameter \<open>py_str\<close>.
\<close>

definition fstring_field :: "(pyval \<Rightarrow> string) \<Rightarrow> pyval \<Rightarrow> string" where
  "fstring_field py_str v = (case v of PStr s \<Rightarrow> s | _ \<Rightarrow> py_str v)"

section \<open>Server\<close>

text \<open>
  \<^verbatim>\<open>
  class Server(object):
      def __init__(self, protocol, host, version=None):
          url = f'{protocol}://{host}'
          if version:
              url = f'{url}/{version}'
          self.PROTOCOL = protocol
          self.HOST = host
          self.VERSION = version
          self.URL = url
  \<close>
\<close>

record server =
  PROTOCOL :: string
  HOST :: string
  VERSION :: pyval
  URL :: string

definition Server_init :: "(pyval \<Rightarrow> string) \<Rightarrow> string \<Rightarrow> string \<Rightarrow> pyval \<Rightarrow> server" where
  "Server_init py_str protocol host version =
     (let url = protocol @ ''://'' @ host;
          url = (if truthy version then url @ ''/'' @ fstring_field py_str version else url)
      in \<lparr>PROTOCOL = protocol, HOST = host, VERSION = version, URL = url\<rparr>)"

section \<open>Errors\<close>

text \<open>
  Modelled from the spec: the module \<^verbatim>\<open>errors\<close> is not among the sources. The spec
  names two error kinds: \<^verbatim>\<open>InvalidResponse\<close>, which carries the original
  response, and \<^verbatim>\<open>DecodeError\<close>. \<open>TransportError\<close> stands for any exception
  of the HTTP transport (connection failure, timeout, exhausted retries), and
  \<open>ValueError\<close> is Python's own.
\<close>

record response =
  status_code :: int
  body :: string

datatype error =
    InvalidResponse response
  | DecodeError
  | TransportError
  | ValueError

section \<open>Retry policy and client construction\<close>

text \<open>
  \<^verbatim>\<open>
  TIMEOUT = 30
  RETRY = Retry(
      total=3,
      backoff_factor=2,
      status_forcelist=(400, 401, 403, 404, 408, 429, 500, 502, 503, 504),
  )
  \<close>
\<close>

record retry =
  total :: int
  backoff_factor :: int
  status_forcelist :: "int list"

definition TIMEOUT :: int where
  "TIMEOUT = 30"

definition RETRY :: retry where
  "RETRY = \<lparr>total = 3, backoff_factor = 2,
            status_forcelist = [400, 401, 403, 404, 408, 429, 500, 502, 503, 504]\<rparr>"

text \<open>The argument \<^verbatim>\<open>retry: (bool, int, Retry) = None\<close> of the constructor.\<close>

datatype retry_arg =
    RetryNone
  | RetryBool bool
  | RetryInt int
  | RetryObj retry

text \<open>
  The class attributes of \<^verbatim>\<open>Client\<close>, which a subclass overrides, and the method
  \<^verbatim>\<open>sign\<close>, which a subclass overrides too:
  \<^verbatim>\<open>
  class Client(object):
      error_key = ''
      enable_rate_limit = True
      rate_limit = 1000  # in milliseconds (seconds * 1E3)

      def sign(self, method, path, params=None, data=None):
          return {}
  \<close>
\<close>

record client_class =
  error_key :: string
  enable_rate_limit :: bool
  rate_limit :: int
  sign :: "string \<Rightarrow> string \<Rightarrow> pyval \<Rightarrow> pyval \<Rightarrow> (string \<times> pyval) list"

definition Client_class :: client_class where
  "Client_class =
     \<lparr>error_key = [], enable_rate_limit = True, rate_limit = 1000,
      sign = (\<lambda>method path params data. [])\<rparr>"

text \<open>
  An instance. The session is represented by what the constructor configures of it:
  the \<^verbatim>\<open>max_retries\<close> of the adapter mounted for both URL schemes.
  \<^verbatim>\<open>
  def __init__(self, server, timeout=TIMEOUT, retry=None):
      self.SERVER = server
      self.TIMEOUT = timeout
      session = requests.Session()
      if retry is True:
          retry = RETRY
      adapter = HTTPAdapter(max_retries=retry)
      session.mount('http://', adapter)
      session.mount('https://', adapter)
      self.session = session
      self.last_request_timestamp = 0
  \<close>
\<close>

record client =
  klass :: client_class
  SERVER :: server
  self_TIMEOUT :: int
  adapter_max_retries :: retry_arg
  last_request_timestamp :: int

definition Client_init :: "client_class \<Rightarrow> server \<Rightarrow> int \<Rightarrow> retry_arg \<Rightarrow> client" where
  "Client_init cls srv timeout rtry =
     (let rtry = (if rtry = RetryBool True then RetryObj RETRY else rtry)
      in \<lparr>klass = cls, SERVER = srv, self_TIMEOUT = timeout,
          adapter_max_retries = rtry, last_request_timestamp = 0\<rparr>)"

section \<open>Clock and throttle\<close>

text \<open>
  \<^verbatim>\<open>
  @staticmethod
  def milliseconds():
      return int(time.time() * 1E3)
  \<close>
  A reading of the clock is the value of the expression \<^verbatim>\<open>time.time() * 1E3\<close> as
  the code computes it: the double that the floating-point product rounds to, in
  milliseconds. The model takes the reading itself as its clock, so no exact product
  stands in for the rounded one. \<^verbatim>\<open>int(x)\<close> truncates towards zero.
\<close>

definition py_int :: "real \<Rightarrow> int" where
  "py_int x = (if 0 \<le> x then \<lfloor>x\<rfloor> else \<lceil>x\<rceil>)"

definition milliseconds :: "real \<Rightarrow> int" where
  "milliseconds reading = py_int reading"

text \<open>
  \<^verbatim>\<open>
  def throttle(self):
      now = float(self.milliseconds())
      elapsed = now - self.last_request_timestamp
      if elapsed < self.rate_limit:
          delay = self.rate_limit - elapsed
          time.sleep(delay / 1E3)
  \<close>
  \<open>throttle c t\<close> is run when the clock reads \<open>t\<close> (the value of
  \<^verbatim>\<open>time.time() * 1E3\<close>); its result is the argument of the call of
  \<^verbatim>\<open>time.sleep\<close> (in seconds), or \<open>None\<close> when \<^verbatim>\<open>time.sleep\<close> is not called.
  The timestamps and \<^verbatim>\<open>rate_limit\<close> are integers far below \<open>2 ^ 53\<close>, so the
  conversion to \<^verbatim>\<open>float\<close> and the two subtractions are exact.
\<close>

definition throttle :: "client \<Rightarrow> real \<Rightarrow> real option" where
  "throttle c t =
     (let now = real_of_int (milliseconds t);
          elapsed = now - real_of_int (last_request_timestamp c)
      in if elapsed < real_of_int (rate_limit (klass c))
         then (let delay = real_of_int (rate_limit (klass c)) - elapsed
               in Some (delay / 1000))
         else None)"

section \<open>Encoding and decoding\<close>

text \<open>
  The functions of libraries that the client calls: \<^verbatim>\<open>json.dumps\<close>,
  \<^verbatim>\<open>response.json()\<close> (\<open>None\<close> when it raises \<^verbatim>\<open>JSONDecodeError\<close>) and
  \<^verbatim>\<open>urlparse(url).path\<close>.
\<close>

record library =
  json_dumps :: "pyval \<Rightarrow> string"
  json_loads :: "string \<Rightarrow> pyval option"
  urlparse_path :: "string \<Rightarrow> string"

text \<open>
  Modelled from the spec: \<^verbatim>\<open>common.clean_parameters\<close> is not among the sources. The
  spec has it remove the entries of the mapping whose value is \<^verbatim>\<open>None\<close>.
\<close>

definition clean_parameters :: "(string \<times> pyval) list \<Rightarrow> (string \<times> pyval) list" where
  "clean_parameters params = filter (\<lambda>(k, v). v \<noteq> PNone) params"

text \<open>
  \<^verbatim>\<open>
  def _encode_data(self, data):
      data = clean_parameters(data or {})
      return json.dumps(data) if data else data
  \<close>
  The body is \<^verbatim>\<open>None\<close> or a mapping. The result is the JSON text, or the empty
  dictionary itself.
\<close>

definition encode_data :: "library \<Rightarrow> (string \<times> pyval) list option \<Rightarrow> pyval" where
  "encode_data lib data =
     (let data = clean_parameters (case data of None \<Rightarrow> [] | Some d \<Rightarrow> if d \<noteq> [] then d else [])
      in if data \<noteq> [] then PStr (json_dumps lib (PDict data)) else PDict data)"

text \<open>
  \<^verbatim>\<open>
  def _decode_data(self, response):
      try:
          json_resp = response.json()
      except json.decoder.JSONDecodeError as e:
          raise errors.DecodeError() from e
      if isinstance(json_resp, dict):
          if bool(json_resp.get(self.error_key, False)):
              raise errors.InvalidResponse(response)
      return json_resp
  \<close>
\<close>

definition decode_data :: "library \<Rightarrow> client \<Rightarrow> response \<Rightarrow> error + pyval" where
  "decode_data lib c resp =
     (case json_loads lib (body resp) of
        None \<Rightarrow> Inl DecodeError
      | Some json_resp \<Rightarrow>
          (case json_resp of
             PDict d \<Rightarrow>
               if truthy (dict_get d (error_key (klass c)) (PBool False))
               then Inl (InvalidResponse resp)
               else Inr json_resp
           | _ \<Rightarrow> Inr json_resp))"

section \<open>Dispatch\<close>

text \<open>
  \<^verbatim>\<open>
  def url_for(self, endpoint):
      return f'{self.SERVER.URL}/{endpoint}'

  def url_path_for(self, endpoint):
      url = self.url_for(endpoint)
      path = urlparse(url).path
      return url, path
  \<close>
\<close>

definition url_for :: "client \<Rightarrow> string \<Rightarrow> string" where
  "url_for c endpoint = URL (SERVER c) @ ''/'' @ endpoint"

definition url_path_for :: "library \<Rightarrow> client \<Rightarrow> string \<Rightarrow> string \<times> string" where
  "url_path_for lib c endpoint =
     (let url = url_for c endpoint; path = urlparse_path lib url in (url, path))"

text \<open>The keyword arguments of \<^verbatim>\<open>self.session.request\<close>.\<close>

record http_call =
  call_method :: string
  call_url :: string
  call_headers :: pyval
  call_params :: pyval
  call_data :: pyval
  call_verify :: bool
  call_timeout :: int

text \<open>
  Lines 75 to 86 of \<^verbatim>\<open>_request\<close>, up to the call of the session:
  \<^verbatim>\<open>
  url, path = self.url_path_for(endpoint)
  data = self._encode_data(data)
  request = self.sign(method, path, params, data)
  response = self.session.request(
      method,
      url=url,
      headers=request.get('headers'),
      params=request.get('params', params),
      data=request.get('data', data),
      verify=True,
      timeout=self.TIMEOUT)
  \<close>
\<close>

definition outgoing_call ::
  "library \<Rightarrow> client \<Rightarrow> string \<Rightarrow> string \<Rightarrow> pyval \<Rightarrow> (string \<times> pyval) list option \<Rightarrow> http_call" where
  "outgoing_call lib c method endpoint params data =
     (let (url, path) = url_path_for lib c endpoint;
          data = encode_data lib data;
          request = sign (klass c) method path params data
      in \<lparr>call_method = method,
          call_url = url,
          call_headers = dict_get request ''headers'' PNone,
          call_params = dict_get request ''params'' params,
          call_data = dict_get request ''data'' data,
          call_verify = True,
          call_timeout = self_TIMEOUT c\<rparr>)"

text \<open>
  \<^verbatim>\<open>response.raise_for_status()\<close> of the HTTP library raises \<^verbatim>\<open>HTTPError\<close> for
  the client error statuses 400 to 499 and the server error statuses 500 to 599.
\<close>

definition raise_for_status :: "response \<Rightarrow> bool" where
  "raise_for_status resp = (400 \<le> status_code resp \<and> status_code resp < 600)"

text \<open>
  Lines 87 to 92 of \<^verbatim>\<open>_request\<close>:
  \<^verbatim>\<open>
  try:
      response.raise_for_status()
  except requests.exceptions.HTTPError as e:
      raise errors.InvalidResponse(response) from e
  return self._decode_data(response)
  \<close>
\<close>

definition handle_response :: "library \<Rightarrow> client \<Rightarrow> response \<Rightarrow> error + pyval" where
  "handle_response lib c resp =
     (if raise_for_status resp then Inl (InvalidResponse resp) else decode_data lib c resp)"

text \<open>
  What one call meets outside the program, in milliseconds of the clock's reading: what
  the reading gains before the clock is read in \<open>throttle\<close> (\<open>idle\<close>), what it gains
  across \<^verbatim>\<open>time.sleep\<close> beyond the delay asked for (\<open>oversleep\<close>; below zero when
  the rounding of the reading loses a part of the delay), what it gains between the end
  of \<open>throttle\<close> and the reading for \<^verbatim>\<open>last_request_timestamp\<close> (\<open>lag\<close>), and the
  answer of the session to the call.
\<close>

record call_env =
  idle :: real
  oversleep :: real
  lag :: real
  session_request :: "http_call \<Rightarrow> error + response"

text \<open>
  \<^verbatim>\<open>
  def _request(self, method, endpoint, params=None, data=None):
      if self.enable_rate_limit:
          self.throttle()
      self.last_request_timestamp = self.milliseconds()
      ...
  \<close>
  \<open>request_time c env clock\<close> is the reading of the clock from which
  \<^verbatim>\<open>last_request_timestamp\<close> is taken, in a call that is entered when the clock
  reads \<open>clock\<close>. It is the instant at which the request starts: the session is called
  next.
\<close>

definition request_time :: "client \<Rightarrow> call_env \<Rightarrow> real \<Rightarrow> real" where
  "request_time c env clock =
     (let t = clock + idle env;
          t = (if enable_rate_limit (klass c)
               then (case throttle c t of
                       Some secs \<Rightarrow> t + secs * 1000 + oversleep env
                     | None \<Rightarrow> t)
               else t)
      in t + lag env)"

text \<open>
  The whole of \<^verbatim>\<open>_request\<close>: the result or the exception, the client with its new
  timestamp (kept also when the call raises), and the clock.
\<close>

definition request ::
  "library \<Rightarrow> client \<Rightarrow> call_env \<Rightarrow> real \<Rightarrow> string \<Rightarrow> string \<Rightarrow> pyval
     \<Rightarrow> (string \<times> pyval) list option \<Rightarrow> (error + pyval) \<times> client \<times> real" where
  "request lib c env clock method endpoint params data =
     (let t = request_time c env clock;
          c = c\<lparr>last_request_timestamp := milliseconds t\<rparr>;
          call = outgoing_call lib c method endpoint params data
      in case session_request env call of
           Inl e \<Rightarrow> (Inl e, c, t)
         | Inr resp \<Rightarrow> (handle_response lib c resp, c, t))"

text \<open>
  \<^verbatim>\<open>
  def get(self, endpoint, params=None):
      return self._request('get', endpoint, params=params)

  def post(self, endpoint, data=None):
      return self._request('post', endpoint, data=data)
  \<close>
  and \<^verbatim>\<open>put\<close>, \<^verbatim>\<open>patch\<close>, \<^verbatim>\<open>delete\<close> as \<^verbatim>\<open>post\<close>.
\<close>

definition get :: "library \<Rightarrow> client \<Rightarrow> call_env \<Rightarrow> real \<Rightarrow> string \<Rightarrow> pyval
    \<Rightarrow> (error + pyval) \<times> client \<times> real" where
  "get lib c env clock endpoint params = request lib c env clock ''get'' endpoint params None"

definition post :: "library \<Rightarrow> client \<Rightarrow> call_env \<Rightarrow> real \<Rightarrow> string
    \<Rightarrow> (string \<times> pyval) list option \<Rightarrow> (error + pyval) \<times> client \<times> real" where
  "post lib c env clock endpoint data = request lib c env clock ''post'' endpoint PNone data"

definition put :: "library \<Rightarrow> client \<Rightarrow> call_env \<Rightarrow> real \<Rightarrow> string
    \<Rightarrow> (string \<times> pyval) list option \<Rightarrow> (error + pyval) \<times> client \<times> real" where
  "put lib c env clock endpoint data = request lib c env clock ''put'' endpoint PNone data"

definition patch :: "library \<Rightarrow> client \<Rightarrow> call_env \<Rightarrow> real \<Rightarrow> string
    \<Rightarrow> (string \<times> pyval) list option \<Rightarrow> (error + pyval) \<times> client \<times> real" where
  "patch lib c env clock endpoint data = request lib c env clock ''patch'' endpoint PNone data"

definition delete :: "library \<Rightarrow> client \<Rightarrow> call_env \<Rightarrow> real \<Rightarrow> string
    \<Rightarrow> (string \<times> pyval) list option \<Rightarrow> (error + pyval) \<times> client \<times> real" where
  "delete lib c env clock endpoint data = request lib c env clock ''delete'' endpoint PNone data"

text \<open>
  Calls issued one after the other on one client: each is entered when the one before
  has returned. \<open>run_calls\<close> lists the \<^verbatim>\<open>last_request_timestamp\<close> every call
  recorded, \<open>run_starts\<close> the readings of the clock they were taken from.
\<close>

record call_args =
  arg_method :: string
  arg_endpoint :: string
  arg_params :: pyval
  arg_data :: "(string \<times> pyval) list option"

fun run_calls :: "library \<Rightarrow> client \<Rightarrow> real \<Rightarrow> (call_env \<times> call_args) list \<Rightarrow> int list" where
  "run_calls lib c clock [] = []"
| "run_calls lib c clock ((env, a) # rest) =
     (case request lib c env clock (arg_method a) (arg_endpoint a) (arg_params a) (arg_data a) of
        (res, c', clock') \<Rightarrow> last_request_timestamp c' # run_calls lib c' clock' rest)"

fun run_starts :: "library \<Rightarrow> client \<Rightarrow> real \<Rightarrow> (call_env \<times> call_args) list \<Rightarrow> real list" where
  "run_starts lib c clock [] = []"
| "run_starts lib c clock ((env, a) # rest) =
     (case request lib c env clock (arg_method a) (arg_endpoint a) (arg_params a) (arg_data a) of
        (res, c', clock') \<Rightarrow> clock' # run_starts lib c' clock' rest)"



section \<open>Enumerations\<close>

text \<open>
  An argument of \<^verbatim>\<open>check\<close>: \<^verbatim>\<open>None\<close>, a member of the class itself
  (\<^verbatim>\<open>type(value) is cls\<close>), or any other value. \<open>'m\<close> is the type of the members of
  the class.
\<close>

datatype 'm enum_value =
    ENone
  | EMember 'm
  | EOther pyval

text \<open>
  \<^verbatim>\<open>
  class _Enum(Enum):
      @staticmethod
      def _format_value(value):
          return str(value).upper()

  class _Market(_Enum):
      @staticmethod
      def _format_value(value):
          value = str(value).replace('-', '')
          value = f'{value[:3]}_{value[3:]}'
          return value.upper()
  \<close>
  Python's \<^verbatim>\<open>str()\<close> and \<^verbatim>\<open>str.upper()\<close> are the parameters.
\<close>

definition format_value :: "(pyval \<Rightarrow> string) \<Rightarrow> (string \<Rightarrow> string) \<Rightarrow> pyval \<Rightarrow> string" where
  "format_value py_str upper v = upper (py_str v)"

definition Market_format_value :: "(pyval \<Rightarrow> string) \<Rightarrow> (string \<Rightarrow> string) \<Rightarrow> pyval \<Rightarrow> string" where
  "Market_format_value py_str upper v =
     (let s = filter (\<lambda>ch. ch \<noteq> CHR ''-'') (py_str v);
          s = take 3 s @ ''_'' @ drop 3 s
      in upper s)"

text \<open>
  \<^verbatim>\<open>
  @classmethod
  def check(cls, value):
      if value is None:
          return value
      if type(value) is cls:
          return value
      try:
          return cls[cls._format_value(value)]
      except KeyError:
          return cls._missing_(value)
  \<close>
  \<open>fmt\<close> is \<^verbatim>\<open>cls._format_value\<close>, \<open>members\<close> is the lookup by name
  \<^verbatim>\<open>cls[name]\<close> (\<open>None\<close> for \<^verbatim>\<open>KeyError\<close>), \<open>missing\<close> is
  \<^verbatim>\<open>cls._missing_\<close>, which the classes of \<^verbatim>\<open>base.py\<close> inherit from the standard
  library's \<^verbatim>\<open>Enum\<close>.
\<close>

definition check ::
  "(pyval \<Rightarrow> string) \<Rightarrow> (string \<rightharpoonup> 'm) \<Rightarrow> (pyval \<Rightarrow> error + 'm enum_value)
     \<Rightarrow> 'm enum_value \<Rightarrow> error + 'm enum_value" where
  "check fmt members missing v =
     (case v of
        ENone \<Rightarrow> Inr ENone
      | EMember m \<Rightarrow> Inr (EMember m)
      | EOther x \<Rightarrow>
          (case members (fmt x) of
             Some m \<Rightarrow> Inr (EMember m)
           | None \<Rightarrow> missing x))"

text \<open>
  The standard library's \<^verbatim>\<open>Enum._missing_\<close> returns \<^verbatim>\<open>None\<close> (Python 3.8 and
  later) or raises \<^verbatim>\<open>ValueError\<close> (Python 3.6 and 3.7); when a class overrides it,
  \<^verbatim>\<open>Enum\<close> requires a member of the class or \<^verbatim>\<open>None\<close> of it.
\<close>

definition Enum_missing :: "pyval \<Rightarrow> error + 'm enum_value" where
  "Enum_missing v = Inr ENone"

definition Enum_missing_raising :: "pyval \<Rightarrow> error + 'm enum_value" where
  "Enum_missing_raising v = Inl ValueError"

definition missing_contract :: "(pyval \<Rightarrow> error + 'm enum_value) \<Rightarrow> bool" where
  "missing_contract missing = (\<forall>x y. missing x \<noteq> Inr (EOther y))"

text \<open>
  The spec's words for the embedded error: the decoded value "is a mapping and contains
  a configured error-flag key set to a truthy value".
\<close>

definition error_flagged :: "string \<Rightarrow> pyval \<Rightarrow> bool" where
  "error_flagged key j =
     (case j of
        PDict d \<Rightarrow> (case map_of d key of Some v \<Rightarrow> truthy v | None \<Rightarrow> False)
      | _ \<Rightarrow> False)"

section \<open>Example inputs\<close>

text \<open>Concrete libraries, clients and environments on which the theorems are run.\<close>

definition example_py_str :: "pyval \<Rightarrow> string" where
  "example_py_str v = (case v of PStr s \<Rightarrow> s | _ \<Rightarrow> ''?'')"

definition example_upper :: "string \<Rightarrow> string" where
  "example_upper s = (if s = ''btc'' then ''BTC'' else s)"

definition example_members :: "string \<rightharpoonup> nat" where
  "example_members = map_of [(''BTC'', 0), (''ETH'', 1)]"

definition example_library :: library where
  "example_library =
     \<lparr>json_dumps = (\<lambda>v. ''<json text>''),
      json_loads =
        (\<lambda>s. if s = ''{\"result\": 42}'' then Some (PDict [(''result'', PInt 42)])
             else if s = ''{\"error\": true}'' then Some (PDict [(''error'', PBool True)])
             else None),
      urlparse_path = (\<lambda>url. drop 23 url)\<rparr>"

definition example_server :: server where
  "example_server = Server_init example_py_str ''https'' ''api.example.com'' (PStr ''v2'')"

definition example_client :: client where
  "example_client =
     Client_init (Client_class\<lparr>error_key := ''error''\<rparr>) example_server TIMEOUT RetryNone"


definition example_env :: "real \<Rightarrow> int \<Rightarrow> string \<Rightarrow> call_env" where
  "example_env wait status text =
     \<lparr>idle = wait, oversleep = 1 / 2000, lag = 0,
      session_request = (\<lambda>call. Inr \<lparr>status_code = status, body = text\<rparr>)\<rparr>"

definition example_args :: call_args where
  "example_args =
     \<lparr>arg_method = ''get'', arg_endpoint = ''ticker'', arg_params = PNone, arg_data = None\<rparr>"


definition example_data_signing_client :: client where
  "example_data_signing_client =
     Client_init
       (Client_class\<lparr>sign := (\<lambda>method path params data. [(''data'', PStr ''signed'')])\<rparr>)
       example_server TIMEOUT RetryNone"

text \<open>
  A session that answers with status 500 and reports in the body what it was called
  with: the keys of the headers, the keys of the params, and the data.
\<close>

definition example_show :: "pyval \<Rightarrow> string" where
  "example_show v = (case v of PDict d \<Rightarrow> concat (map fst d) | PStr s \<Rightarrow> s | _ \<Rightarrow> ''-'')"

definition example_echo_env :: call_env where
  "example_echo_env =
     \<lparr>idle = 200, oversleep = 0, lag = 0,
      session_request =
        (\<lambda>call. Inr \<lparr>status_code = 500,
                      body = example_show (call_headers call) @ '';''
                             @ example_show (call_params call) @ '';''
                             @ example_show (call_data call)\<rparr>)\<rparr>"

text \<open>
  An environment in which the reading gains \<open>over\<close> milliseconds across
  \<^verbatim>\<open>time.sleep\<close> beyond the delay asked for.
\<close>

definition example_sleep_env :: "real \<Rightarrow> real \<Rightarrow> call_env" where
  "example_sleep_env wait over =
     \<lparr>idle = wait, oversleep = over, lag = 0,
      session_request = (\<lambda>call. Inr \<lparr>status_code = 200, body = ''ok''\<rparr>)\<rparr>"

section \<open>Properties of the dispatch\<close>

lemma outgoing_call_timestamp:
  "outgoing_call lib (c\<lparr>last_request_timestamp := ts\<rparr>) m e p d = outgoing_call lib c m e p d"
  by (simp add: outgoing_call_def url_path_for_def url_for_def Let_def)

lemma outgoing_call_loads:
  "outgoing_call (lib\<lparr>json_loads := loads\<rparr>) c m e p d = outgoing_call lib c m e p d"
  by (simp add: outgoing_call_def url_path_for_def url_for_def encode_data_def Let_def)

lemma handle_response_timestamp:
  "handle_response lib (c\<lparr>last_request_timestamp := ts\<rparr>) resp = handle_response lib c resp"
  by (simp add: handle_response_def decode_data_def split: option.splits pyval.splits)

text \<open>
  The session is called with \<open>outgoing_call\<close>, and the result of \<^verbatim>\<open>_request\<close> is the
  transport's exception or what \<open>handle_response\<close> makes of the response.
\<close>

lemma request_result:
  "fst (request lib c env clock m e p d) =
     (case session_request env (outgoing_call lib c m e p d) of
        Inl err \<Rightarrow> Inl err
      | Inr resp \<Rightarrow> handle_response lib c resp)"
  by (simp add: request_def Let_def outgoing_call_timestamp handle_response_timestamp
           split: sum.splits)

lemma klass_request: "klass (fst (snd (request lib c env clock m e p d))) = klass c"
  by (simp add: request_def Let_def split: sum.splits)

lemma SERVER_request: "SERVER (fst (snd (request lib c env clock m e p d))) = SERVER c"
  by (simp add: request_def Let_def split: sum.splits)

lemma timestamp_request:
  "last_request_timestamp (fst (snd (request lib c env clock m e p d))) =
     milliseconds (request_time c env clock)"
  by (simp add: request_def Let_def split: sum.splits)

lemma clock_request:
  "snd (snd (request lib c env clock m e p d)) = request_time c env clock"
  by (simp add: request_def Let_def split: sum.splits)

text \<open>The call that \<^verbatim>\<open>_request\<close> hands to the session, field by field.\<close>

lemma outgoing_call_fields:
  "outgoing_call lib c verb endpoint params data =
     (let body_text = encode_data lib data;
          overrides = sign (klass c) verb (urlparse_path lib (url_for c endpoint)) params body_text
      in \<lparr>call_method = verb, call_url = url_for c endpoint,
          call_headers = dict_get overrides ''headers'' PNone,
          call_params = dict_get overrides ''params'' params,
          call_data = dict_get overrides ''data'' body_text,
          call_verify = True, call_timeout = self_TIMEOUT c\<rparr>)"
  by (simp add: outgoing_call_def url_path_for_def Let_def)




text \<open>
  C2. When the session answers with a response whose status is a client or server error
  (400 to 599), \<^verbatim>\<open>_request\<close> raises \<^verbatim>\<open>InvalidResponse\<close> carrying that response,
  whatever the body holds and whatever the JSON decoder would make of it: the decoder
  is not consulted.
\<close>

theorem http_error_status_raises:
  assumes "400 \<le> status_code resp" and "status_code resp < 600"
    and "session_request env (outgoing_call lib c verb endpoint params data) = Inr resp"
  shows "handle_response (lib\<lparr>json_loads := loads\<rparr>) c resp = Inl (InvalidResponse resp)
         \<and> fst (request (lib\<lparr>json_loads := loads\<rparr>) c env clock verb endpoint params data)
             = Inl (InvalidResponse resp)"
  using assms
  by (simp add: request_result outgoing_call_loads handle_response_def raise_for_status_def)

theorem http_error_status_raises_witness:
  "fst (request (example_library\<lparr>json_loads := (\<lambda>s. None)\<rparr>) example_client
          (example_env (1 / 5) 500 ''{\"result\": 42}'') 5 ''get'' ''ticker'' PNone None)
     = Inl (InvalidResponse \<lparr>status_code = 500, body = ''{\"result\": 42}''\<rparr>)"
  using http_error_status_raises [where resp = "\<lparr>status_code = 500, body = ''{\"result\": 42}''\<rparr>"
      and env = "example_env (1 / 5) 500 ''{\"result\": 42}''" and lib = example_library
      and c = example_client and verb = "''get''" and endpoint = "''ticker''"
      and params = PNone and data = None and loads = "\<lambda>s. None"
      and clock = 5]
  by (simp add: example_env_def)

section \<open>Properties of decoding\<close>

lemma decode_data_flagged:
  "json_loads lib (body resp) = Some j \<Longrightarrow>
   decode_data lib c resp =
     (if error_flagged (error_key (klass c)) j then Inl (InvalidResponse resp) else Inr j)"
  by (cases j) (auto simp: decode_data_def error_flagged_def dict_get_def split: option.splits)

text \<open>
  C3. For a response that is not an HTTP error, \<^verbatim>\<open>_request\<close> returns what
  \<^verbatim>\<open>_decode_data\<close> returns. \<^verbatim>\<open>_decode_data\<close> raises \<^verbatim>\<open>DecodeError\<close> exactly
  when the body does not parse as JSON. When it parses to a mapping that holds a truthy
  value under the class's \<^verbatim>\<open>error_key\<close>, \<^verbatim>\<open>InvalidResponse\<close> is raised with the
  response; in every other case the decoded value (object, array or scalar) is returned
  as it is.
\<close>

theorem decode_data_outcomes:
  "(decode_data lib c resp = Inl DecodeError \<longleftrightarrow> json_loads lib (body resp) = None)
   \<and> (\<forall>j. json_loads lib (body resp) = Some j \<longrightarrow>
          decode_data lib c resp =
            (if error_flagged (error_key (klass c)) j
             then Inl (InvalidResponse resp) else Inr j))
   \<and> (\<not> raise_for_status resp \<longrightarrow>
        session_request env (outgoing_call lib c verb endpoint params data) = Inr resp \<longrightarrow>
        fst (request lib c env clock verb endpoint params data) = decode_data lib c resp)"
proof (intro conjI allI impI)
  show "decode_data lib c resp = Inl DecodeError \<longleftrightarrow> json_loads lib (body resp) = None"
  proof (cases "json_loads lib (body resp)")
    case None
    then show ?thesis by (simp add: decode_data_def)
  next
    case (Some j)
    then show ?thesis by (simp add: decode_data_flagged)
  qed
next
  fix j assume "json_loads lib (body resp) = Some j"
  then show "decode_data lib c resp =
            (if error_flagged (error_key (klass c)) j
             then Inl (InvalidResponse resp) else Inr j)"
    by (rule decode_data_flagged)
next
  assume "\<not> raise_for_status resp"
    and "session_request env (outgoing_call lib c verb endpoint params data) = Inr resp"
  then show "fst (request lib c env clock verb endpoint params data) = decode_data lib c resp"
    by (simp add: request_result handle_response_def)
qed

theorem decode_data_outcomes_witness:
  "fst (request example_library example_client (example_env (1 / 5) 200 ''{\"result\": 42}'') 5
          ''get'' ''ticker'' PNone None) = Inr (PDict [(''result'', PInt 42)])
   \<and> fst (request example_library example_client (example_env (1 / 5) 200 ''{\"error\": true}'') 5
          ''get'' ''ticker'' PNone None)
       = Inl (InvalidResponse \<lparr>status_code = 200, body = ''{\"error\": true}''\<rparr>)
   \<and> fst (request example_library example_client (example_env (1 / 5) 200 ''<html>'') 5
          ''get'' ''ticker'' PNone None) = Inl DecodeError"
  using
    decode_data_outcomes [where resp = "\<lparr>status_code = 200, body = ''{\"result\": 42}''\<rparr>"
      and env = "example_env (1 / 5) 200 ''{\"result\": 42}''" and lib = example_library
      and c = example_client and verb = "''get''" and endpoint = "''ticker''"
      and params = PNone and data = None and clock = 5]
    decode_data_outcomes [where resp = "\<lparr>status_code = 200, body = ''{\"error\": true}''\<rparr>"
      and env = "example_env (1 / 5) 200 ''{\"error\": true}''" and lib = example_library
      and c = example_client and verb = "''get''" and endpoint = "''ticker''"
      and params = PNone and data = None and clock = 5]
    decode_data_outcomes [where resp = "\<lparr>status_code = 200, body = ''<html>''\<rparr>"
      and env = "example_env (1 / 5) 200 ''<html>''" and lib = example_library
      and c = example_client and verb = "''get''" and endpoint = "''ticker''"
      and params = PNone and data = None and clock = 5]
  by (simp add: example_env_def example_library_def example_client_def Client_init_def
        raise_for_status_def error_flagged_def)

section \<open>Properties of the throttle\<close>

text \<open>
  C4. \<^verbatim>\<open>throttle\<close> takes \<open>elapsed\<close> as the clock in milliseconds minus
  \<^verbatim>\<open>last_request_timestamp\<close>. When \<open>elapsed\<close> is below \<^verbatim>\<open>rate_limit\<close> it calls
  \<^verbatim>\<open>time.sleep\<close> once, asking for exactly \<open>rate_limit - elapsed\<close> milliseconds (the
  argument is that number over 1000, in seconds); otherwise it does not call
  \<^verbatim>\<open>time.sleep\<close> at all. The \<^verbatim>\<open>rate_limit\<close> of the class \<^verbatim>\<open>Client\<close> is 1000.
\<close>

theorem throttle_sleep:
  "(let elapsed = milliseconds t - last_request_timestamp c;
        R = rate_limit (klass c)
    in (elapsed < R \<longrightarrow> throttle c t = Some (real_of_int (R - elapsed) / 1000))
       \<and> (R \<le> elapsed \<longrightarrow> throttle c t = None))
   \<and> rate_limit Client_class = 1000"
  by (simp add: throttle_def Let_def Client_class_def)

theorem throttle_sleep_witness:
  "throttle (example_client\<lparr>last_request_timestamp := 5200\<rparr>) 5500 = Some (700 / 1000)
   \<and> throttle (example_client\<lparr>last_request_timestamp := 5200\<rparr>) 6500 = None"
  using throttle_sleep [where c = "example_client\<lparr>last_request_timestamp := 5200\<rparr>" and t = 5500]
    throttle_sleep [where c = "example_client\<lparr>last_request_timestamp := 5200\<rparr>" and t = 6500]
  by (simp add: Let_def milliseconds_def py_int_def example_client_def Client_init_def
        Client_class_def)

lemma milliseconds_nonneg: "0 \<le> t \<Longrightarrow> milliseconds t = \<lfloor>t\<rfloor>"
  by (simp add: milliseconds_def py_int_def)

text \<open>The delay asked of \<^verbatim>\<open>time.sleep\<close> is a whole number of milliseconds, at least one.\<close>

lemma throttle_delay:
  assumes "throttle c t = Some secs"
  shows "1 \<le> secs * 1000"
    and "secs * 1000 = real_of_int (rate_limit (klass c) - (milliseconds t - last_request_timestamp c))"
proof -
  let ?e = "milliseconds t - last_request_timestamp c"
  from assms have lt: "?e < rate_limit (klass c)"
    by (simp add: throttle_def Let_def split: if_splits)
  from assms show eq: "secs * 1000 = real_of_int (rate_limit (klass c) - ?e)"
    by (auto simp: throttle_def Let_def split: if_splits)
  from lt have "1 \<le> rate_limit (klass c) - ?e" by simp
  then have "(1::real) \<le> real_of_int (rate_limit (klass c) - ?e)" by linarith
  then show "1 \<le> secs * 1000" by (simp only: eq)
qed

text \<open>The clock does not run backwards during a call.\<close>

lemma request_time_ge:
  assumes "0 \<le> idle env" "- 1 \<le> oversleep env" "0 \<le> lag env"
  shows "clock \<le> request_time c env clock"
proof (cases "enable_rate_limit (klass c)")
  case False
  then show ?thesis using assms by (simp add: request_time_def Let_def)
next
  case True
  show ?thesis
  proof (cases "throttle c (clock + idle env)")
    case None
    then show ?thesis using assms True by (simp add: request_time_def Let_def)
  next
    case (Some secs)
    from throttle_delay(1)[OF Some] have "1 \<le> secs * 1000" .
    then show ?thesis using assms True Some by (simp add: request_time_def Let_def)
  qed
qed

text \<open>
  One call: the timestamp it records is at least \<^verbatim>\<open>rate_limit\<close> after the one it found,
  less the slack that the reading may lose across the sleep.
\<close>

lemma request_time_spacing:
  assumes en: "enable_rate_limit (klass c)"
    and clk: "0 \<le> clock"
    and slack: "0 \<le> slack" "slack \<le> 1"
    and env: "0 \<le> idle env" "- real_of_int slack \<le> oversleep env" "0 \<le> lag env"
  shows "last_request_timestamp c + rate_limit (klass c) - slack
           \<le> milliseconds (request_time c env clock)"
proof -
  define t1 where "t1 = clock + idle env"
  define now where "now = milliseconds t1"
  define R where "R = rate_limit (klass c)"
  define l where "l = last_request_timestamp c"
  have over: "- 1 \<le> oversleep env" using slack env(2) by linarith
  have t1: "0 \<le> t1" using clk env by (simp add: t1_def)
  have now: "now = \<lfloor>t1\<rfloor>" using t1 by (simp add: now_def milliseconds_nonneg)
  have now_le: "real_of_int now \<le> t1" by (simp add: now)
  have t3: "0 \<le> request_time c env clock"
    using request_time_ge[OF env(1) over env(3), of clock c] clk by linarith
  show ?thesis
  proof (cases "throttle c t1")
    case (Some secs)
    have d: "secs * 1000 = real_of_int (R - (now - l))"
      using throttle_delay(2)[OF Some] by (simp add: R_def now_def l_def)
    have rt: "request_time c env clock = t1 + secs * 1000 + oversleep env + lag env"
      using en Some by (simp add: request_time_def Let_def t1_def)
    have "real_of_int (l + R - slack) \<le> request_time c env clock"
      using now_le env by (simp add: rt d)
    then have "l + R - slack \<le> \<lfloor>request_time c env clock\<rfloor>"
      by (simp add: le_floor_iff)
    then show ?thesis using t3 by (simp add: milliseconds_nonneg R_def l_def)
  next
    case None
    then have rt: "request_time c env clock = t1 + lag env"
      using en by (simp add: request_time_def Let_def t1_def)
    from None have "R \<le> now - l"
      by (simp add: throttle_def Let_def now_def R_def l_def split: if_splits)
    then have "l + R - slack \<le> now" using slack by linarith
    moreover have "now \<le> \<lfloor>request_time c env clock\<rfloor>"
      unfolding now rt using env by (intro floor_mono) simp
    ultimately show ?thesis using t3 by (simp add: milliseconds_nonneg R_def l_def)
  qed
qed

lemma run_calls_successively:
  assumes "enable_rate_limit (klass c)" "0 \<le> clock" "0 \<le> slack" "slack \<le> 1"
    and "\<forall>(env, a) \<in> set calls.
           0 \<le> idle env \<and> - real_of_int slack \<le> oversleep env \<and> 0 \<le> lag env"
  shows "successively (\<lambda>a b. a + rate_limit (klass c) - slack \<le> b)
           (last_request_timestamp c # run_calls lib c clock calls)"
  using assms
proof (induction calls arbitrary: c clock)
  case Nil
  then show ?case by simp
next
  case (Cons x calls)
  obtain env a where x: "x = (env, a)" by (cases x)
  let ?r = "request lib c env clock (arg_method a) (arg_endpoint a) (arg_params a) (arg_data a)"
  let ?c' = "fst (snd ?r)"
  let ?clock' = "snd (snd ?r)"
  have env: "0 \<le> idle env" "- real_of_int slack \<le> oversleep env" "0 \<le> lag env"
    using Cons.prems(5) by (auto simp: x)
  have over: "- 1 \<le> oversleep env" using Cons.prems(4) env(2) by linarith
  have k: "klass ?c' = klass c" by (rule klass_request)
  have clk: "0 \<le> ?clock'"
    using request_time_ge[OF env(1) over env(3), of clock c] Cons.prems(2)
    by (simp add: clock_request)
  have step: "last_request_timestamp c + rate_limit (klass c) - slack
                \<le> last_request_timestamp ?c'"
    using request_time_spacing[OF Cons.prems(1,2,3,4) env] by (simp add: timestamp_request)
  have IH: "successively (\<lambda>a b. a + rate_limit (klass c) - slack \<le> b)
           (last_request_timestamp ?c' # run_calls lib ?c' ?clock' calls)"
    using Cons.IH[of ?c' ?clock'] Cons.prems(1,3,4,5) k clk by simp
  have "run_calls lib c clock (x # calls)
          = last_request_timestamp ?c' # run_calls lib ?c' ?clock' calls"
    by (simp add: x split: prod.splits)
  then show ?case using step IH by simp
qed

lemma successively_nth:
  "successively P xs \<Longrightarrow> Suc i < length xs \<Longrightarrow> P (xs ! i) (xs ! Suc i)"
proof (induction P xs arbitrary: i rule: successively.induct)
  case (3 P x y xs)
  then show ?case by (cases i) auto
qed simp_all

lemma length_run_calls: "length (run_calls lib c clock calls) = length calls"
  by (induction calls arbitrary: c clock) (auto split: prod.splits)

text \<open>Every recorded timestamp is the truncation of the reading it was taken from.\<close>

lemma run_calls_starts:
  "run_calls lib c clock calls = map milliseconds (run_starts lib c clock calls)"
proof (induction calls arbitrary: c clock)
  case Nil
  then show ?case by simp
next
  case (Cons x calls)
  obtain env a where x: "x = (env, a)" by (cases x)
  obtain res c' clock' where r:
    "request lib c env clock (arg_method a) (arg_endpoint a) (arg_params a) (arg_data a)
       = (res, c', clock')"
    by (cases "request lib c env clock (arg_method a) (arg_endpoint a) (arg_params a)
                 (arg_data a)")
  have "last_request_timestamp c' = milliseconds clock'"
    using timestamp_request[of lib c env clock "arg_method a" "arg_endpoint a" "arg_params a"
        "arg_data a"]
      clock_request[of lib c env clock "arg_method a" "arg_endpoint a" "arg_params a"
        "arg_data a"]
    by (simp add: r)
  then show ?case using Cons.IH[of c' clock'] by (simp add: x r)
qed

lemma run_starts_nonneg:
  assumes "0 \<le> clock"
    and "\<forall>(env, a) \<in> set calls. 0 \<le> idle env \<and> - 1 \<le> oversleep env \<and> 0 \<le> lag env"
  shows "\<forall>s \<in> set (run_starts lib c clock calls). 0 \<le> s"
  using assms
proof (induction calls arbitrary: c clock)
  case Nil
  then show ?case by simp
next
  case (Cons x calls)
  obtain env a where x: "x = (env, a)" by (cases x)
  obtain res c' clock' where r:
    "request lib c env clock (arg_method a) (arg_endpoint a) (arg_params a) (arg_data a)
       = (res, c', clock')"
    by (cases "request lib c env clock (arg_method a) (arg_endpoint a) (arg_params a)
                 (arg_data a)")
  have env: "0 \<le> idle env" "- 1 \<le> oversleep env" "0 \<le> lag env"
    using Cons.prems(2) by (auto simp: x)
  have "clock' = request_time c env clock"
    using clock_request[of lib c env clock "arg_method a" "arg_endpoint a" "arg_params a"
        "arg_data a"]
    by (simp add: r)
  then have clk: "0 \<le> clock'"
    using request_time_ge[OF env, of clock c] Cons.prems(1) by simp
  have "\<forall>s \<in> set (run_starts lib c' clock' calls). 0 \<le> s"
    using Cons.IH[OF clk] Cons.prems(2) by simp
  then show ?case using clk by (simp add: x r)
qed

text \<open>
  C5. Calls are issued one after the other on a client whose class has rate limiting
  enabled. The start of a request is the instant at which \<^verbatim>\<open>_request\<close> reads the
  clock for \<^verbatim>\<open>last_request_timestamp\<close>: after \<^verbatim>\<open>throttle\<close> has returned and
  before the session is called, and whatever the session answers. The clock's reading
  is not negative and never decreases, and across \<^verbatim>\<open>time.sleep\<close> it gains the delay
  asked for, less at most \<open>slack\<close> (0, or 1 millisecond for the rounding of the
  reading). Then the timestamps recorded by call \<open>i\<close> and call \<open>i + 1\<close>, which are
  whole milliseconds, are at least \<^verbatim>\<open>rate_limit\<close> less \<open>slack\<close> apart, and the
  readings they are truncated from are more than \<^verbatim>\<open>rate_limit\<close> less \<open>slack\<close> less
  one millisecond apart. The first timestamp is as far from the one the client held
  before.
\<close>

theorem sequential_calls_spaced:
  assumes "enable_rate_limit (klass c)" and "0 \<le> clock"
    and "0 \<le> slack" and "slack \<le> 1"
    and "\<forall>(env, a) \<in> set calls.
           0 \<le> idle env \<and> - real_of_int slack \<le> oversleep env \<and> 0 \<le> lag env"
  shows "length (run_calls lib c clock calls) = length calls
    \<and> run_calls lib c clock calls = map milliseconds (run_starts lib c clock calls)
    \<and> (\<forall>i. Suc i < length calls \<longrightarrow>
          run_calls lib c clock calls ! i + rate_limit (klass c) - slack
            \<le> run_calls lib c clock calls ! Suc i
          \<and> real_of_int (rate_limit (klass c) - slack) - 1
              < run_starts lib c clock calls ! Suc i - run_starts lib c clock calls ! i)
    \<and> (calls \<noteq> [] \<longrightarrow>
          last_request_timestamp c + rate_limit (klass c) - slack
            \<le> run_calls lib c clock calls ! 0)
    \<and> last_request_timestamp
          (fst (snd (request lib c env clock verb endpoint params data)))
        = milliseconds (request_time c env clock)"
proof -
  let ?ts = "run_calls lib c clock calls"
  let ?ss = "run_starts lib c clock calls"
  let ?R = "rate_limit (klass c)"
  have succ: "successively (\<lambda>a b. a + ?R - slack \<le> b) (last_request_timestamp c # ?ts)"
    using assms by (rule run_calls_successively)
  have len: "length ?ts = length calls" by (rule length_run_calls)
  have ts: "?ts = map milliseconds ?ss" by (rule run_calls_starts)
  have len_ss: "length ?ss = length calls" using len ts by (metis length_map)
  have "\<forall>(env, a) \<in> set calls. 0 \<le> idle env \<and> - 1 \<le> oversleep env \<and> 0 \<le> lag env"
    using assms(4,5) by fastforce
  then have nonneg: "\<forall>s \<in> set ?ss. 0 \<le> s"
    using assms(2) by (rule run_starts_nonneg[rotated])
  have floor_ts: "?ts ! j = \<lfloor>?ss ! j\<rfloor>" if "j < length calls" for j
  proof -
    from that len_ss have "?ss ! j \<in> set ?ss" by simp
    with nonneg have "0 \<le> ?ss ! j" by blast
    moreover have "?ts ! j = milliseconds (?ss ! j)"
      using that len_ss by (subst ts) simp
    ultimately show ?thesis by (simp add: milliseconds_nonneg)
  qed
  have stamps: "?ts ! i + ?R - slack \<le> ?ts ! Suc i" if "Suc i < length calls" for i
    using successively_nth[OF succ, of "Suc i"] that len by simp
  have starts: "real_of_int (?R - slack) - 1 < ?ss ! Suc i - ?ss ! i"
    if "Suc i < length calls" for i
  proof -
    from that have i: "i < length calls" by simp
    have "real_of_int (?ts ! i + ?R - slack) \<le> real_of_int (?ts ! Suc i)"
      using stamps[OF that] by linarith
    moreover have "real_of_int (?ts ! Suc i) \<le> ?ss ! Suc i"
      by (simp add: floor_ts[OF that])
    moreover have "?ss ! i - 1 < real_of_int (?ts ! i)"
      by (simp add: floor_ts[OF i])
    ultimately show ?thesis by simp
  qed
  have first: "last_request_timestamp c + ?R - slack \<le> ?ts ! 0" if "calls \<noteq> []"
  proof -
    from that len have "0 < length ?ts" by simp
    then show ?thesis using successively_nth[OF succ, of 0] by simp
  qed
  show ?thesis using len ts stamps starts first by (simp add: timestamp_request)
qed

theorem sequential_calls_spaced_witness:
  "run_calls example_library example_client 5000
      [(example_env 200 200 ''ok'', example_args),
       (example_env 300 200 ''ok'', example_args)] = [5200, 6200]
   \<and> run_calls example_library example_client 5000
      [(example_sleep_env 200 0, example_args),
       (example_sleep_env 300 (- 1 / 4096), example_args)] = [5200, 6199]
   \<and> rate_limit (klass example_client) = 1000
   \<and> run_calls example_library example_client 5000
        [(example_env 200 200 ''ok'', example_args),
         (example_env 300 200 ''ok'', example_args)] ! 0
        + rate_limit (klass example_client) - 0
      \<le> run_calls example_library example_client 5000
        [(example_env 200 200 ''ok'', example_args),
         (example_env 300 200 ''ok'', example_args)] ! Suc 0
   \<and> run_calls example_library example_client 5000
        [(example_sleep_env 200 0, example_args),
         (example_sleep_env 300 (- 1 / 4096), example_args)] ! 0
        + rate_limit (klass example_client) - 1
      \<le> run_calls example_library example_client 5000
        [(example_sleep_env 200 0, example_args),
         (example_sleep_env 300 (- 1 / 4096), example_args)] ! Suc 0"
proof -
  let ?calls = "[(example_env 200 200 ''ok'', example_args),
                 (example_env 300 200 ''ok'', example_args)]"
  let ?lossy = "[(example_sleep_env 200 0, example_args),
                 (example_sleep_env 300 (- 1 / 4096), example_args)]"
  have en: "enable_rate_limit (klass example_client)"
    by (simp add: example_client_def Client_init_def Client_class_def)
  have clk: "(0::real) \<le> 5000" by simp
  have envs: "\<forall>(env, a) \<in> set ?calls.
      0 \<le> idle env \<and> - real_of_int 0 \<le> oversleep env \<and> 0 \<le> lag env"
    by (simp add: example_env_def)
  have lossy: "\<forall>(env, a) \<in> set ?lossy.
      0 \<le> idle env \<and> - real_of_int 1 \<le> oversleep env \<and> 0 \<le> lag env"
    by (simp add: example_sleep_env_def)
  have s0: "(0::int) \<le> 0" "(0::int) \<le> 1" and s1: "(0::int) \<le> 1" "(1::int) \<le> 1"
    by simp_all
  have spaced: "run_calls example_library example_client 5000 ?calls ! 0
                  + rate_limit (klass example_client) - 0
                \<le> run_calls example_library example_client 5000 ?calls ! Suc 0"
    using sequential_calls_spaced [OF en clk s0 envs, where lib = example_library,
        THEN conjunct2, THEN conjunct2, THEN conjunct1, THEN spec, of 0]
    by (simp del: run_calls.simps run_starts.simps)
  have spaced_lossy: "run_calls example_library example_client 5000 ?lossy ! 0
                  + rate_limit (klass example_client) - 1
                \<le> run_calls example_library example_client 5000 ?lossy ! Suc 0"
    using sequential_calls_spaced [OF en clk s1 lossy, where lib = example_library,
        THEN conjunct2, THEN conjunct2, THEN conjunct1, THEN spec, of 0]
    by (simp del: run_calls.simps run_starts.simps)
  have val: "run_calls example_library example_client 5000 ?calls = [5200, 6200]"
    by (simp add: request_def request_time_def throttle_def milliseconds_def py_int_def Let_def
          example_client_def example_env_def example_args_def Client_init_def Client_class_def)
  have val_lossy: "run_calls example_library example_client 5000 ?lossy = [5200, 6199]"
    by (simp add: request_def request_time_def throttle_def milliseconds_def py_int_def Let_def
          example_client_def example_sleep_env_def example_args_def Client_init_def
          Client_class_def)
  have R: "rate_limit (klass example_client) = 1000"
    by (simp add: example_client_def Client_init_def Client_class_def)
  show ?thesis using spaced spaced_lossy val val_lossy R by simp
qed

text \<open>
  Rate limiting is enabled, \<^verbatim>\<open>rate_limit\<close> is 1000, the clock never decreases and
  \<^verbatim>\<open>time.sleep\<close> blocks exactly as long as asked. The first request starts when the
  clock reads 5200.75 and records 5200; the second call is entered at 5500, sleeps 700
  milliseconds and starts at 6200: 999.25 milliseconds after the first, which is less
  than \<^verbatim>\<open>rate_limit\<close>.
\<close>

theorem sequential_calls_closer_than_rate_limit:
  "enable_rate_limit (klass example_client)
   \<and> rate_limit (klass example_client) = 1000
   \<and> run_starts example_library example_client 5000
        [(example_sleep_env (803 / 4) 0, example_args),
         (example_sleep_env (1197 / 4) 0, example_args)] = [20803 / 4, 6200]
   \<and> run_starts example_library example_client 5000
        [(example_sleep_env (803 / 4) 0, example_args),
         (example_sleep_env (1197 / 4) 0, example_args)] ! Suc 0
       - run_starts example_library example_client 5000
        [(example_sleep_env (803 / 4) 0, example_args),
         (example_sleep_env (1197 / 4) 0, example_args)] ! 0
       < real_of_int (rate_limit (klass example_client))"
  by (simp add: request_def request_time_def throttle_def milliseconds_def py_int_def Let_def
        example_client_def example_sleep_env_def example_args_def Client_init_def
        Client_class_def)

section \<open>Properties of the server descriptor\<close>

text \<open>
  C6. \<^verbatim>\<open>Server(protocol, host)\<close> has the URL \<open>protocol://host\<close>, and
  \<^verbatim>\<open>Server(protocol, host, version)\<close> with a non-empty string \<open>version\<close> has the URL
  \<open>protocol://host/version\<close>; an empty version string gives \<open>protocol://host\<close> again.
  \<^verbatim>\<open>Server("https", "api.example.com", "v2")\<close> has the URL
  \<^verbatim>\<open>https://api.example.com/v2\<close>, and without the version
  \<^verbatim>\<open>https://api.example.com\<close>. The other fields hold the arguments, and a request
  leaves the client's server as it was.
\<close>

theorem Server_url:
  "URL (Server_init py_str protocol host PNone) = protocol @ ''://'' @ host
   \<and> (version \<noteq> [] \<longrightarrow>
        URL (Server_init py_str protocol host (PStr version))
          = protocol @ ''://'' @ host @ ''/'' @ version)
   \<and> URL (Server_init py_str protocol host (PStr [])) = protocol @ ''://'' @ host
   \<and> URL (Server_init py_str ''https'' ''api.example.com'' (PStr ''v2''))
        = ''https://api.example.com/v2''
   \<and> URL (Server_init py_str ''https'' ''api.example.com'' PNone) = ''https://api.example.com''
   \<and> PROTOCOL (Server_init py_str protocol host v) = protocol
   \<and> HOST (Server_init py_str protocol host v) = host
   \<and> VERSION (Server_init py_str protocol host v) = v
   \<and> SERVER (fst (snd (request lib c env clock verb endpoint params data))) = SERVER c"
  by (simp add: Server_init_def Let_def fstring_field_def SERVER_request)

theorem Server_url_witness:
  "URL (Server_init example_py_str ''http'' ''localhost'' (PStr ''v1'')) = ''http://localhost/v1''"
  using Server_url [where version = "''v1''" and protocol = "''http''" and host = "''localhost''"
      and py_str = example_py_str]
  by simp

text \<open>
  With the empty string as the version, which is a version given, the URL is not
  \<open>protocol://host/version\<close>: no slash is appended.
\<close>

theorem Server_url_empty_version:
  "URL (Server_init example_py_str ''https'' ''api.example.com'' (PStr ''''))
     \<noteq> ''https'' @ ''://'' @ ''api.example.com'' @ ''/'' @ ''''"
  by (simp add: Server_init_def Let_def)

text \<open>
  C9. A falsy version (\<^verbatim>\<open>None\<close>, the empty string, \<^verbatim>\<open>0\<close>, \<^verbatim>\<open>False\<close>, an empty
  list or mapping) gives the URL \<open>protocol://host\<close>, the same as \<^verbatim>\<open>version=None\<close>:
  no version segment and no slash are appended.
\<close>

theorem falsy_version_no_segment:
  "\<not> truthy version \<Longrightarrow>
     URL (Server_init py_str protocol host version) = protocol @ ''://'' @ host
     \<and> URL (Server_init py_str protocol host version)
         = URL (Server_init py_str protocol host PNone)"
  by (simp add: Server_init_def Let_def)

theorem falsy_version_no_segment_witness:
  "URL (Server_init example_py_str ''https'' ''api.example.com'' (PStr ''''))
     = ''https://api.example.com''
   \<and> URL (Server_init example_py_str ''https'' ''api.example.com'' (PStr ''''))
     = URL (Server_init example_py_str ''https'' ''api.example.com'' PNone)
   \<and> URL (Server_init example_py_str ''https'' ''api.example.com'' (PInt 0))
     = ''https://api.example.com''"
  using falsy_version_no_segment [where version = "PStr ''''" and protocol = "''https''"
      and host = "''api.example.com''" and py_str = example_py_str]
    falsy_version_no_segment [where version = "PInt 0" and protocol = "''https''"
      and host = "''api.example.com''" and py_str = example_py_str]
  by (simp add: Server_init_def Let_def)

section \<open>Properties of the body encoding\<close>

text \<open>
  C7. A body mapping passed to \<^verbatim>\<open>post\<close>, \<^verbatim>\<open>put\<close>, \<^verbatim>\<open>patch\<close> or
  \<^verbatim>\<open>delete\<close> (and the absent body of \<^verbatim>\<open>get\<close>) goes through \<^verbatim>\<open>_request\<close>,
  which encodes it: the encoded body is JSON text exactly when the mapping, with its
  \<^verbatim>\<open>None\<close>-valued entries removed, is not empty, and then it is \<^verbatim>\<open>json.dumps\<close>
  of the cleaned mapping; otherwise no JSON text is produced and the encoded body is the
  empty mapping, for which the session sends no body. The signing hook is given the
  encoded body, and the session is called with it as \<^verbatim>\<open>data\<close>, unless the hook
  returns a \<^verbatim>\<open>data\<close> entry of its own, which is then sent in its place.
\<close>

theorem verb_body_encoding:
  "(let cleaned = clean_parameters (case data of None \<Rightarrow> [] | Some d \<Rightarrow> d);
        body_text = encode_data lib data;
        overrides = sign (klass c) verb (urlparse_path lib (url_for c endpoint)) params body_text;
        post_overrides = sign (klass c) ''post'' (urlparse_path lib (url_for c endpoint)) PNone
                           body_text
    in ((\<exists>text. body_text = PStr text) \<longleftrightarrow> cleaned \<noteq> [])
       \<and> (cleaned \<noteq> [] \<longrightarrow> body_text = PStr (json_dumps lib (PDict cleaned)))
       \<and> (cleaned = [] \<longrightarrow> body_text = PDict [])
       \<and> fst (request lib c env clock verb endpoint params data)
           = (case session_request env
                     \<lparr>call_method = verb, call_url = url_for c endpoint,
                      call_headers = dict_get overrides ''headers'' PNone,
                      call_params = dict_get overrides ''params'' params,
                      call_data = (case map_of overrides ''data'' of
                                     Some v \<Rightarrow> v | None \<Rightarrow> body_text),
                      call_verify = True, call_timeout = self_TIMEOUT c\<rparr> of
                Inl err \<Rightarrow> Inl err
              | Inr resp \<Rightarrow> handle_response lib c resp)
       \<and> fst (post lib c env clock endpoint data)
           = (case session_request env
                     \<lparr>call_method = ''post'', call_url = url_for c endpoint,
                      call_headers = dict_get post_overrides ''headers'' PNone,
                      call_params = dict_get post_overrides ''params'' PNone,
                      call_data = (case map_of post_overrides ''data'' of
                                     Some v \<Rightarrow> v | None \<Rightarrow> body_text),
                      call_verify = True, call_timeout = self_TIMEOUT c\<rparr> of
                Inl err \<Rightarrow> Inl err
              | Inr resp \<Rightarrow> handle_response lib c resp))
   \<and> post lib c env clock endpoint data = request lib c env clock ''post'' endpoint PNone data
   \<and> put lib c env clock endpoint data = request lib c env clock ''put'' endpoint PNone data
   \<and> patch lib c env clock endpoint data = request lib c env clock ''patch'' endpoint PNone data
   \<and> delete lib c env clock endpoint data
       = request lib c env clock ''delete'' endpoint PNone data
   \<and> get lib c env clock endpoint params = request lib c env clock ''get'' endpoint params None"
proof -
  have enc: "encode_data lib data =
      (if clean_parameters (case data of None \<Rightarrow> [] | Some d \<Rightarrow> d) \<noteq> []
       then PStr (json_dumps lib (PDict (clean_parameters (case data of None \<Rightarrow> [] | Some d \<Rightarrow> d))))
       else PDict [])"
    by (cases data) (auto simp: encode_data_def Let_def clean_parameters_def)
  have sent: "fst (request lib c env clock v endpoint ps data)
           = (case session_request env
                     \<lparr>call_method = v, call_url = url_for c endpoint,
                      call_headers = dict_get
                        (sign (klass c) v (urlparse_path lib (url_for c endpoint)) ps
                           (encode_data lib data)) ''headers'' PNone,
                      call_params = dict_get
                        (sign (klass c) v (urlparse_path lib (url_for c endpoint)) ps
                           (encode_data lib data)) ''params'' ps,
                      call_data = (case map_of
                        (sign (klass c) v (urlparse_path lib (url_for c endpoint)) ps
                           (encode_data lib data)) ''data'' of
                                     Some v \<Rightarrow> v | None \<Rightarrow> encode_data lib data),
                      call_verify = True, call_timeout = self_TIMEOUT c\<rparr> of
                Inl err \<Rightarrow> Inl err
              | Inr resp \<Rightarrow> handle_response lib c resp)" for v ps
    by (simp add: request_result outgoing_call_fields Let_def dict_get_def)
  show ?thesis
    unfolding Let_def
    by (intro conjI)
       (simp_all add: enc sent [of verb params] sent [of "''post''" PNone]
          post_def put_def patch_def delete_def get_def)
qed

theorem verb_body_encoding_witness:
  "fst (post example_library example_client example_echo_env 5000 ''orders''
          (Some [(''amount'', PInt 1), (''memo'', PNone)]))
     = Inl (InvalidResponse \<lparr>status_code = 500, body = ''-;-;<json text>''\<rparr>)
   \<and> fst (post example_library example_client example_echo_env 5000 ''orders''
          (Some [(''memo'', PNone)]))
     = Inl (InvalidResponse \<lparr>status_code = 500, body = ''-;-;''\<rparr>)
   \<and> encode_data example_library (Some [(''amount'', PInt 1), (''memo'', PNone)])
       = PStr (json_dumps example_library (PDict [(''amount'', PInt 1)]))
   \<and> encode_data example_library (Some [(''memo'', PNone)]) = PDict []
   \<and> encode_data example_library None = PDict []"
  using
    verb_body_encoding [where data = "Some [(''amount'', PInt 1), (''memo'', PNone)]"
      and lib = example_library and c = example_client and env = example_echo_env
      and clock = 5000 and verb = "''post''" and endpoint = "''orders''" and params = PNone]
    verb_body_encoding [where data = "Some [(''memo'', PNone)]"
      and lib = example_library and c = example_client and env = example_echo_env
      and clock = 5000 and verb = "''post''" and endpoint = "''orders''" and params = PNone]
    verb_body_encoding [where data = None
      and lib = example_library and c = example_client and env = example_echo_env
      and clock = 5000 and verb = "''post''" and endpoint = "''orders''" and params = PNone]
  by (simp add: Let_def clean_parameters_def example_client_def Client_init_def Client_class_def
        example_library_def example_echo_env_def example_show_def dict_get_def
        handle_response_def raise_for_status_def)

text \<open>
  A hook that returns \<^verbatim>\<open>{'data': 'signed'}\<close>, on a \<^verbatim>\<open>post\<close> whose body mapping
  is empty once its \<^verbatim>\<open>None\<close>-valued entry is removed: body content is sent all the
  same, the hook's.
\<close>

theorem verb_body_sent_by_hook:
  "fst (post example_library example_data_signing_client example_echo_env 5000 ''orders''
          (Some [(''memo'', PNone)]))
     = Inl (InvalidResponse \<lparr>status_code = 500, body = ''-;-;signed''\<rparr>)
   \<and> clean_parameters [(''memo'', PNone)] = []
   \<and> call_data (outgoing_call example_library example_data_signing_client ''post'' ''orders''
          PNone (Some [(''memo'', PNone)])) = PStr ''signed''"
  by (simp add: post_def request_result outgoing_call_fields Let_def dict_get_def
        clean_parameters_def example_data_signing_client_def Client_init_def Client_class_def
        example_echo_env_def example_show_def handle_response_def raise_for_status_def)

section \<open>Properties of the retry policy\<close>

text \<open>
  C8. A client constructed with \<^verbatim>\<open>retry=True\<close> mounts an adapter whose
  \<^verbatim>\<open>max_retries\<close> is the module's \<^verbatim>\<open>RETRY\<close> policy: \<^verbatim>\<open>total\<close> 3,
  \<^verbatim>\<open>backoff_factor\<close> 2, and a \<^verbatim>\<open>status_forcelist\<close> that contains 400, 401, 403,
  404, 408, 429, 500, 502, 503 and 504.
\<close>

theorem retry_True_default_policy:
  "adapter_max_retries (Client_init cls srv timeout (RetryBool True)) = RetryObj RETRY
   \<and> total RETRY = 3
   \<and> backoff_factor RETRY = 2
   \<and> {400, 401, 403, 404, 408, 429, 500, 502, 503, 504} \<subseteq> set (status_forcelist RETRY)"
  by (simp add: Client_init_def RETRY_def)

theorem retry_True_default_policy_witness:
  "adapter_max_retries (Client_init Client_class example_server TIMEOUT (RetryBool True))
     = RetryObj \<lparr>total = 3, backoff_factor = 2,
                 status_forcelist = [400, 401, 403, 404, 408, 429, 500, 502, 503, 504]\<rparr>"
  using retry_True_default_policy [where cls = Client_class and srv = example_server
      and timeout = TIMEOUT]
  by (simp add: RETRY_def)

section \<open>Properties of the enumeration lookup\<close>

text \<open>
  C10. \<^verbatim>\<open>check(None)\<close> is \<^verbatim>\<open>None\<close>, \<^verbatim>\<open>check(x)\<close> is \<open>x\<close> for a member \<open>x\<close> of
  the class, and \<^verbatim>\<open>check(check(v))\<close> is \<^verbatim>\<open>check(v)\<close> whenever \<^verbatim>\<open>check(v)\<close>
  returns. \<^verbatim>\<open>_missing_\<close> is the one inherited from \<^verbatim>\<open>Enum\<close>, or any other that
  keeps \<^verbatim>\<open>Enum\<close>'s contract: it returns \<^verbatim>\<open>None\<close> or a member, or it raises.
\<close>

theorem check_idempotent:
  "check fmt members missing ENone = Inr ENone
   \<and> check fmt members missing (EMember m) = Inr (EMember m)
   \<and> (missing_contract missing \<longrightarrow> check fmt members missing v = Inr r \<longrightarrow>
        check fmt members missing r = Inr r)
   \<and> missing_contract (Enum_missing :: pyval \<Rightarrow> error + 'm enum_value)
   \<and> missing_contract (Enum_missing_raising :: pyval \<Rightarrow> error + 'm enum_value)"
  by (cases v)
     (auto simp: check_def missing_contract_def Enum_missing_def Enum_missing_raising_def
        split: option.splits enum_value.splits)

theorem check_idempotent_witness:
  "check (format_value example_py_str example_upper) example_members Enum_missing
       (EOther (PStr ''btc'')) = Inr (EMember 0)
   \<and> check (format_value example_py_str example_upper) example_members Enum_missing
       (EMember 0) = Inr (EMember 0)
   \<and> check (format_value example_py_str example_upper) example_members Enum_missing
       (EOther (PStr ''doge'')) = Inr ENone
   \<and> check (format_value example_py_str example_upper) example_members Enum_missing
       ENone = Inr ENone"
  using
    check_idempotent [where fmt = "format_value example_py_str example_upper"
      and members = example_members
      and missing = "Enum_missing :: pyval \<Rightarrow> error + nat enum_value"
      and v = "EOther (PStr ''btc'')" and r = "EMember 0" and m = 0]
    check_idempotent [where fmt = "format_value example_py_str example_upper"
      and members = example_members
      and missing = "Enum_missing :: pyval \<Rightarrow> error + nat enum_value"
      and v = "EOther (PStr ''doge'')" and r = ENone and m = 0]
  by (simp add: check_def format_value_def example_py_str_def example_upper_def
        example_members_def Enum_missing_def)

end
